theory Spec2Isabelle
  imports Main "HOL-Library.Word"
begin

unbundle bit_operations_syntax

section \<open>The Vulkan surface of the Fuchsia Flutter runner\<close>

text \<open>
  A shallow embedding of \<^verbatim>\<open>shell/platform/fuchsia/flutter/vulkan_surface.cc\<close>.
  The class \<^verbatim>\<open>VulkanSurface\<close> becomes a record of its data members, each member function
  a function from the record to the updated record. Isabelle refuses names that end in an
  underscore, so the member \<^verbatim>\<open>valid_\<close> is the field \<open>valid\<close>, \<^verbatim>\<open>age_\<close> is \<open>age\<close>, and so on.

  Everything outside the class (the Zircon kernel, the Vulkan driver, Skia, the Scenic
  session, the async dispatcher) is represented twice: every call the code makes to it is
  appended to the field \<open>trace\<close>, in program order, and every result the code reads back
  from it is a field of an environment record that the function takes as its first
  argument. Handles owned by the surface that the code never inspects (the events, the
  buffer collection, the device memory, the fence) appear only through the calls that
  create and use them.
\<close>

subsection \<open>Platform types\<close>

type_synonym zx_status_t = int
type_synonym VkResult = int
type_synonym u32 = "32 word"
type_synonym u64 = "64 word"

definition ZX_OK :: zx_status_t where
  "ZX_OK = 0"

definition VK_SUCCESS :: VkResult where
  "VK_SUCCESS = 0"

text \<open>\<^verbatim>\<open>ZX_EVENT_SIGNALED\<close> is the Zircon object signal, bit 3 of a \<^verbatim>\<open>zx_signals_t\<close>.\<close>

definition ZX_EVENT_SIGNALED :: u32 where
  "ZX_EVENT_SIGNALED = 8"

text \<open>\<^verbatim>\<open>SkISize\<close>: two 32-bit signed integers; no arithmetic is done on them here.\<close>

record SkISize =
  fWidth :: int
  fHeight :: int

definition Make :: "int \<Rightarrow> int \<Rightarrow> SkISize" where
  "Make w h = \<lparr>fWidth = w, fHeight = h\<rparr>"

definition MakeEmpty :: SkISize where
  "MakeEmpty = Make 0 0"

definition isEmpty :: "SkISize \<Rightarrow> bool" where
  "isEmpty sz = (fWidth sz \<le> 0 \<or> fHeight sz \<le> 0)"

text \<open>
  An \<^verbatim>\<open>SkSurface\<close>, reduced to what this file reads from it: its pixel dimensions.
\<close>

record SkSurface =
  width :: int
  height :: int

record VkMemoryRequirements =
  req_size :: u64
  memoryTypeBits :: u32

record VkMemoryAllocateInfo =
  allocationSize :: u64
  memoryTypeIndex :: u32

record VulkanImage =
  extent_width :: u32
  extent_height :: u32
  vk_memory_requirements :: VkMemoryRequirements

datatype event_name = acquire_event | release_event

datatype command =
  CreateImage2Cmd u32 int int u32 u32
| ReleaseResourceCmd u32

text \<open>The calls the surface makes to the outside world.\<close>

datatype 'cb effect =
  AllocateSharedCollection
| TokenDuplicate
| TokenSync
| RegisterBufferCollection u32
| DeregisterBufferCollection u32
| AllocResourceId
| Enqueue command
| EnqueueAcquireFence event_name
| EnqueueReleaseFence event_name
| VkCreateBufferCollection
| VkSetBufferCollectionConstraints u32 u32
| VkCreateImage
| VkGetImageMemoryRequirements
| VkGetBufferCollectionProperties
| VkAllocateMemory VkMemoryAllocateInfo
| VkBindImageMemory
| MakeFromBackendRenderTarget int int
| EventCreate event_name
| EventDuplicate event_name
| EventSignal event_name
| VkCreateSemaphore
| VkImportSemaphoreZirconHandle
| SemaphoreReset
| CreateFence
| VkWaitForFences
| VkResetFences
| WaitSetObject event_name
| WaitSetTrigger
| WaitBegin
| WaitCancel
| WaitSetObjectInvalid
| InvokeCallback 'cb

text \<open>The ways in which the process can stop inside a member function.\<close>

datatype fatal = DCheckFailed | CheckFailed | NullDereference | UndefinedBehaviour

subsection \<open>The surface\<close>

text \<open>
  \<open>size_history\<close> is the array \<^verbatim>\<open>size_history_\<close>; an element that has never been written
  is \<open>None\<close>. \<open>acquire_semaphore\<close> and \<open>command_buffer\<close> say whether the handle is set.
  \<open>pending_on_writes_committed\<close> is the \<^verbatim>\<open>std::function\<close> slot, \<open>None\<close> when empty; a
  callback is a name of type \<open>'cb\<close>, and what a callback does when it is called is the
  parameter \<open>run\<close> of the functions that call one.
\<close>

record 'cb VulkanSurface =
  vulkan_image :: "VulkanImage option"
  vk_memory_info :: "VkMemoryAllocateInfo option"
  sk_surface :: "SkSurface option"
  buffer_id :: u32
  image_id :: u32
  acquire_semaphore :: bool
  command_buffer :: bool
  pending_on_writes_committed :: "'cb option"
  size_history :: "SkISize option list"
  size_history_index :: nat
  age :: u64
  valid :: bool
  trace :: "'cb effect list"

definition emit :: "'cb effect \<Rightarrow> 'cb VulkanSurface \<Rightarrow> 'cb VulkanSurface" where
  "emit ev s = s\<lparr>trace := trace s @ [ev]\<rparr>"

text \<open>
  Modelled from the spec: the member initialisers of the class, which are in
  \<^verbatim>\<open>vulkan_surface.h\<close> and not in the source file. The spec has an age counter that starts
  at zero, a callback slot that is empty until a callback is registered, ids that are
  absent until they are acquired, a surface that is invalid until setup has completed, and
  a size history of fixed length (the parameter \<open>kSizeHistorySize\<close>).
\<close>

definition initial :: "nat \<Rightarrow> 'cb VulkanSurface" where
  "initial kSizeHistorySize =
     \<lparr>vulkan_image = None, vk_memory_info = None, sk_surface = None,
      buffer_id = 0, image_id = 0, acquire_semaphore = False, command_buffer = False,
      pending_on_writes_committed = None,
      size_history = replicate kSizeHistorySize None, size_history_index = 0,
      age = 0, valid = False, trace = []\<rparr>"

text \<open>
  Modelled from the spec: the macro \<^verbatim>\<open>FML_DCHECK\<close> of \<^verbatim>\<open>flutter/fml/logging.h\<close>, which is
  not under the source tree. The spec calls it a fatal assertion: when the condition is
  false the process stops there.
\<close>

definition FML_DCHECK :: "bool \<Rightarrow> fatal + 'a \<Rightarrow> fatal + 'a" where
  "FML_DCHECK cond rest = (if cond then rest else Inl DCheckFailed)"

text \<open>
  Modelled from the spec: \<^verbatim>\<open>dart_utils::Check\<close> of \<^verbatim>\<open>runtime/dart/utils/inlines.h\<close>, which
  is not under the source tree. The spec calls it the fatal double-registration assertion.
\<close>

definition Check :: "bool \<Rightarrow> fatal + 'a \<Rightarrow> fatal + 'a" where
  "Check cond rest = (if cond then rest else Inl CheckFailed)"

text \<open>
  \<^verbatim>\<open>__builtin_ctz\<close>: the index of the lowest set bit; the result for 0 is undefined, here
  \<open>None\<close>.
\<close>

definition builtin_ctz :: "u32 \<Rightarrow> nat option" where
  "builtin_ctz x = find (bit x) [0..<32]"

subsection \<open>Results of the calls to the outside world\<close>

datatype made_surface = NullSurface | NullCanvas | Made

record alloc_env =
  allocate_shared_collection_status :: zx_status_t
  token_duplicate_status :: zx_status_t
  token_sync_status :: zx_status_t
  create_buffer_collection_result :: VkResult
  set_constraints_result :: VkResult
  create_image_result :: VkResult
  image_memory_requirements :: VkMemoryRequirements
  get_collection_properties_result :: VkResult
  collection_memoryTypeBits :: u32
  allocate_memory_result :: VkResult
  bind_image_memory_result :: VkResult
  make_surface_result :: made_surface

record semaphore_env =
  duplicate_status :: zx_status_t
  create_semaphore_result :: VkResult
  import_semaphore_result :: VkResult

record fences_env =
  acquire_create_status :: zx_status_t
  fences_semaphore :: semaphore_env
  release_create_status :: zx_status_t

record reset_env =
  acquire_signal_status :: zx_status_t
  release_signal_status :: zx_status_t
  reset_semaphore :: semaphore_env

record flush_env =
  acquire_duplicate_status :: zx_status_t
  release_duplicate_status :: zx_status_t

record ctor_env =
  alloc :: alloc_env
  fences :: fences_env
  resource_id :: u32
  ctor_reset :: reset_env

record zx_packet_signal_t =
  observed :: u32

subsection \<open>Allocation\<close>

text \<open>
  \<open>CreateVulkanImage\<close> returns the image it has filled in, or \<open>None\<close> where the C++
  returns false. Its second assertion, on the address of the caller's local variable,
  cannot fail and is left out. The cast of the size to \<^verbatim>\<open>uint32_t\<close> is \<open>word_of_int\<close>.
\<close>

definition CreateVulkanImage ::
  "alloc_env \<Rightarrow> SkISize \<Rightarrow> 'cb VulkanSurface \<Rightarrow> fatal + (VulkanImage option \<times> 'cb VulkanSurface)" where
  "CreateVulkanImage e sz s =
     FML_DCHECK (\<not> isEmpty sz)
       (let w = (word_of_int (fWidth sz) :: u32);
            h = (word_of_int (fHeight sz) :: u32);
            s1 = emit (VkSetBufferCollectionConstraints w h) s
        in if set_constraints_result e \<noteq> VK_SUCCESS then Inr (None, s1)
           else let s2 = emit VkCreateImage s1
                in if create_image_result e \<noteq> VK_SUCCESS then Inr (None, s2)
                   else let s3 = emit VkGetImageMemoryRequirements s2
                        in Inr (Some \<lparr>extent_width = w, extent_height = h,
                                      vk_memory_requirements = image_memory_requirements e\<rparr>, s3))"

text \<open>
  \<^verbatim>\<open>SkSurface::MakeFromBackendRenderTarget\<close> is Skia's: when it returns a surface, the
  surface has the dimensions of the render target it was made from.
\<close>

definition SetupSkiaSurface ::
  "alloc_env \<Rightarrow> bool \<Rightarrow> SkISize \<Rightarrow> 'cb VulkanSurface \<Rightarrow> bool \<times> 'cb VulkanSurface" where
  "SetupSkiaSurface e context sz s =
     (if \<not> context then (False, s)
      else let s1 = emit (MakeFromBackendRenderTarget (fWidth sz) (fHeight sz)) s
           in case make_surface_result e of
                NullSurface \<Rightarrow> (False, s1)
              | NullCanvas \<Rightarrow> (False, s1)
              | Made \<Rightarrow> (True, s1\<lparr>sk_surface := Some \<lparr>width = fWidth sz, height = fHeight sz\<rparr>\<rparr>))"

definition AllocateDeviceMemory ::
  "alloc_env \<Rightarrow> bool \<Rightarrow> SkISize \<Rightarrow> u32 \<Rightarrow> 'cb VulkanSurface \<Rightarrow> fatal + (bool \<times> 'cb VulkanSurface)" where
  "AllocateDeviceMemory e context sz bid s =
     (if isEmpty sz then Inr (False, s)
      else let s1 = emit AllocateSharedCollection s in
      if allocate_shared_collection_status e \<noteq> ZX_OK then Inr (False, s1)
      else let s2 = emit TokenDuplicate s1 in
      if token_duplicate_status e \<noteq> ZX_OK then Inr (False, s2)
      else let s3 = emit TokenSync s2 in
      if token_sync_status e \<noteq> ZX_OK then Inr (False, s3)
      else let s4 = (emit (RegisterBufferCollection bid) s3)\<lparr>buffer_id := bid\<rparr>;
               s5 = emit VkCreateBufferCollection s4 in
      if create_buffer_collection_result e \<noteq> VK_SUCCESS then Inr (False, s5)
      else case CreateVulkanImage e sz s5 of
             Inl f \<Rightarrow> Inl f
           | Inr (None, s6) \<Rightarrow> Inr (False, s6)
           | Inr (Some vk_img, s6) \<Rightarrow>
               let s7 = s6\<lparr>vulkan_image := Some vk_img\<rparr>;
                   memory_requirements = vk_memory_requirements vk_img;
                   s8 = emit VkGetBufferCollectionProperties s7 in
               if get_collection_properties_result e \<noteq> VK_SUCCESS then Inr (False, s8)
               else let bits = memoryTypeBits memory_requirements AND collection_memoryTypeBits e in
               FML_DCHECK (bits \<noteq> 0)
                 (case builtin_ctz bits of
                    None \<Rightarrow> Inl UndefinedBehaviour
                  | Some n \<Rightarrow>
                      let allocation_info =
                            \<lparr>allocationSize = req_size memory_requirements,
                             memoryTypeIndex = of_nat n\<rparr>;
                          s9 = emit (VkAllocateMemory allocation_info) s8 in
                      if allocate_memory_result e \<noteq> VK_SUCCESS then Inr (False, s9)
                      else let s10 = s9\<lparr>vk_memory_info := Some allocation_info\<rparr>;
                               s11 = emit VkBindImageMemory s10 in
                      if bind_image_memory_result e \<noteq> VK_SUCCESS then Inr (False, s11)
                      else Inr (SetupSkiaSurface e context sz s11)))"

subsection \<open>Fences\<close>

definition SemaphoreFromEvent ::
  "semaphore_env \<Rightarrow> event_name \<Rightarrow> 'cb VulkanSurface \<Rightarrow> bool \<times> 'cb VulkanSurface" where
  "SemaphoreFromEvent e ev s =
     (let s1 = emit (EventDuplicate ev) s in
      if duplicate_status e \<noteq> ZX_OK then (False, s1)
      else let s2 = emit VkCreateSemaphore s1 in
      if create_semaphore_result e \<noteq> VK_SUCCESS then (False, s2)
      else let s3 = emit VkImportSemaphoreZirconHandle s2 in
      if import_semaphore_result e \<noteq> VK_SUCCESS then (False, s3)
      else (True, s3))"

definition CreateFences :: "fences_env \<Rightarrow> 'cb VulkanSurface \<Rightarrow> bool \<times> 'cb VulkanSurface" where
  "CreateFences e s =
     (let s1 = emit (EventCreate acquire_event) s in
      if acquire_create_status e \<noteq> ZX_OK then (False, s1)
      else let r = SemaphoreFromEvent (fences_semaphore e) acquire_event s1;
               s2 = (snd r)\<lparr>acquire_semaphore := fst r\<rparr> in
      if \<not> acquire_semaphore s2 then (False, s2)
      else let s3 = emit (EventCreate release_event) s2 in
      if release_create_status e \<noteq> ZX_OK then (False, s3)
      else (True, emit CreateFence s3))"

subsection \<open>Queries\<close>

definition IsValid :: "'cb VulkanSurface \<Rightarrow> bool" where
  "IsValid s = valid s"

definition GetSize :: "'cb VulkanSurface \<Rightarrow> fatal + SkISize" where
  "GetSize s =
     (if \<not> valid s then Inr (Make 0 0)
      else case sk_surface s of
             None \<Rightarrow> Inl NullDereference
           | Some sf \<Rightarrow> Inr (Make (width sf) (height sf)))"

definition GetImageId :: "'cb VulkanSurface \<Rightarrow> u32" where
  "GetImageId s = image_id s"

definition GetSkiaSurface :: "'cb VulkanSurface \<Rightarrow> SkSurface option" where
  "GetSkiaSurface s = (if valid s then sk_surface s else None)"

subsection \<open>Session operations, age and callbacks\<close>

text \<open>
  The resource id that the session hands out is the argument \<open>new_id\<close>. In the functions
  that call a callback, the callback is called with the surface as it is at that point of
  the code, and the function goes on with the surface that the callback returns.
\<close>

definition PushSessionImageSetupOps :: "u32 \<Rightarrow> 'cb VulkanSurface \<Rightarrow> fatal + 'cb VulkanSurface" where
  "PushSessionImageSetupOps new_id s =
     (let s1 = (if image_id s = 0 then (emit AllocResourceId s)\<lparr>image_id := new_id\<rparr> else s)
      in case sk_surface s1 of
           None \<Rightarrow> Inl NullDereference
         | Some sf \<Rightarrow>
             Inr (emit (Enqueue (CreateImage2Cmd (image_id s1) (width sf) (height sf)
                                   (buffer_id s1) 0)) s1))"

text \<open>
  \<open>kSizeHistorySize\<close> is a constant of the header, taken as a parameter. Writing the array
  outside its bounds and taking a remainder by zero are undefined in C++.
\<close>

definition AdvanceAndGetAge :: "nat \<Rightarrow> 'cb VulkanSurface \<Rightarrow> fatal + (u64 \<times> 'cb VulkanSurface)" where
  "AdvanceAndGetAge kSizeHistorySize s =
     (case GetSize s of
        Inl f \<Rightarrow> Inl f
      | Inr sz \<Rightarrow>
          if length (size_history s) \<le> size_history_index s \<or> kSizeHistorySize = 0
          then Inl UndefinedBehaviour
          else let s1 = s\<lparr>size_history := (size_history s)[size_history_index s := Some sz]\<rparr>;
                   s2 = s1\<lparr>size_history_index := (size_history_index s1 + 1) mod kSizeHistorySize\<rparr>;
                   s3 = s2\<lparr>age := age s2 + 1\<rparr>
               in Inr (age s3, s3))"

definition FlushSessionAcquireAndReleaseEvents ::
  "flush_env \<Rightarrow> 'cb VulkanSurface \<Rightarrow> bool \<times> 'cb VulkanSurface" where
  "FlushSessionAcquireAndReleaseEvents e s =
     (let s1 = emit (EventDuplicate acquire_event) s in
      if acquire_duplicate_status e \<noteq> ZX_OK then (False, s1)
      else let s2 = emit (EventDuplicate release_event) s1 in
      if release_duplicate_status e \<noteq> ZX_OK then (False, s2)
      else let s3 = emit (EnqueueAcquireFence acquire_event) s2;
               s4 = emit (EnqueueReleaseFence release_event) s3
           in (True, s4\<lparr>age := 0\<rparr>))"

definition SignalWritesFinished ::
  "('cb \<Rightarrow> 'cb VulkanSurface \<Rightarrow> 'cb VulkanSurface) \<Rightarrow> 'cb VulkanSurface \<Rightarrow> 'cb option
     \<Rightarrow> fatal + 'cb VulkanSurface" where
  "SignalWritesFinished run s on_writes_committed =
     FML_DCHECK (on_writes_committed \<noteq> None)
       (if \<not> valid s
        then (case on_writes_committed of
                None \<Rightarrow> Inl NullDereference
              | Some c \<Rightarrow> Inr (run c (emit (InvokeCallback c) s)))
        else Check (pending_on_writes_committed s = None)
               (Inr (s\<lparr>pending_on_writes_committed := on_writes_committed\<rparr>)))"

definition Reset ::
  "('cb \<Rightarrow> 'cb VulkanSurface \<Rightarrow> 'cb VulkanSurface) \<Rightarrow> reset_env \<Rightarrow> 'cb VulkanSurface
     \<Rightarrow> 'cb VulkanSurface" where
  "Reset run e s =
     (let s1 = emit (EventSignal acquire_event) s;
          acquire_failed = (acquire_signal_status e \<noteq> ZX_OK);
          s2 = (if acquire_failed then s1 else emit (EventSignal release_event) s1);
          s3 = (if acquire_failed \<or> release_signal_status e \<noteq> ZX_OK
                then s2\<lparr>valid := False\<rparr> else s2);
          s4 = (if command_buffer s3
                then (emit VkWaitForFences s3)\<lparr>command_buffer := False\<rparr> else s3);
          s5 = emit VkResetFences s4;
          s6 = (emit SemaphoreReset s5)\<lparr>acquire_semaphore := False\<rparr>;
          r = SemaphoreFromEvent (reset_semaphore e) acquire_event s6;
          s7 = (snd r)\<lparr>acquire_semaphore := fst r\<rparr>;
          s8 = emit WaitBegin s7;
          callback = pending_on_writes_committed s8;
          s9 = s8\<lparr>pending_on_writes_committed := None\<rparr>
      in case callback of
           None \<Rightarrow> s9
         | Some c \<Rightarrow> run c (emit (InvokeCallback c) s9))"

definition OnHandleReady ::
  "('cb \<Rightarrow> 'cb VulkanSurface \<Rightarrow> 'cb VulkanSurface) \<Rightarrow> reset_env \<Rightarrow> zx_status_t
     \<Rightarrow> zx_packet_signal_t \<Rightarrow> 'cb VulkanSurface \<Rightarrow> fatal + 'cb VulkanSurface" where
  "OnHandleReady run e status signal s =
     (if status \<noteq> ZX_OK then Inr s
      else FML_DCHECK (observed signal AND ZX_EVENT_SIGNALED \<noteq> 0) (Inr (Reset run e s)))"

subsection \<open>Construction and destruction\<close>

definition VulkanSurface_ctor ::
  "('cb \<Rightarrow> 'cb VulkanSurface \<Rightarrow> 'cb VulkanSurface) \<Rightarrow> ctor_env \<Rightarrow> nat \<Rightarrow> bool \<Rightarrow> bool
     \<Rightarrow> SkISize \<Rightarrow> u32 \<Rightarrow> fatal + 'cb VulkanSurface" where
  "VulkanSurface_ctor run e kSizeHistorySize session context sz bid =
     FML_DCHECK session
       (case AllocateDeviceMemory (alloc e) context sz bid (initial kSizeHistorySize) of
          Inl f \<Rightarrow> Inl f
        | Inr (allocated, s1) \<Rightarrow>
            if \<not> allocated then Inr s1
            else (case CreateFences (fences e) s1 of
                    (created, s2) \<Rightarrow>
                      if \<not> created then Inr s2
                      else (case PushSessionImageSetupOps (resource_id e) s2 of
                              Inl f \<Rightarrow> Inl f
                            | Inr s3 \<Rightarrow>
                                let s4 = s3\<lparr>size_history :=
                                              map (\<lambda>_. Some MakeEmpty) (size_history s3)\<rparr>;
                                    s5 = emit (WaitSetObject release_event) s4;
                                    s6 = emit WaitSetTrigger s5;
                                    s7 = Reset run (ctor_reset e) s6
                                in Inr (s7\<lparr>valid := True\<rparr>))))"

definition VulkanSurface_dtor :: "'cb VulkanSurface \<Rightarrow> 'cb VulkanSurface" where
  "VulkanSurface_dtor s =
     (let s1 = (if image_id s \<noteq> 0 then emit (Enqueue (ReleaseResourceCmd (image_id s))) s else s);
          s2 = (if buffer_id s1 \<noteq> 0 then emit (DeregisterBufferCollection (buffer_id s1)) s1
                else s1);
          s3 = emit WaitCancel s2
      in emit WaitSetObjectInvalid s3)"

subsection \<open>Observations on traces\<close>

text \<open>The calls of a trace that go to the Scenic session, and the callbacks it invokes.\<close>

fun is_session_call :: "'cb effect \<Rightarrow> bool" where
  "is_session_call (RegisterBufferCollection _) = True"
| "is_session_call (DeregisterBufferCollection _) = True"
| "is_session_call AllocResourceId = True"
| "is_session_call (Enqueue _) = True"
| "is_session_call (EnqueueAcquireFence _) = True"
| "is_session_call (EnqueueReleaseFence _) = True"
| "is_session_call _ = False"

definition session_calls :: "'cb effect list \<Rightarrow> 'cb effect list" where
  "session_calls t = filter is_session_call t"

fun invoked :: "'cb effect \<Rightarrow> 'cb list" where
  "invoked (InvokeCallback c) = [c]"
| "invoked _ = []"

definition callbacks_invoked :: "'cb effect list \<Rightarrow> 'cb list" where
  "callbacks_invoked t = concat (map invoked t)"

subsection \<open>Closed forms of the straight-line functions\<close>

text \<open>
  What \<open>SemaphoreFromEvent\<close>, \<open>Reset\<close> and \<open>FlushSessionAcquireAndReleaseEvents\<close> return
  and append to the trace, written as functions of the results they read. The lemmas
  \<open>SemaphoreFromEvent_eq\<close>, \<open>Reset_eq\<close> and \<open>Flush_eq\<close> prove them equal to the
  functions above.
\<close>

definition semaphore_ok :: "semaphore_env \<Rightarrow> bool" where
  "semaphore_ok e =
     (duplicate_status e = ZX_OK \<and> create_semaphore_result e = VK_SUCCESS
      \<and> import_semaphore_result e = VK_SUCCESS)"

definition semaphore_trace :: "semaphore_env \<Rightarrow> event_name \<Rightarrow> 'cb effect list" where
  "semaphore_trace e ev =
     EventDuplicate ev #
       (if duplicate_status e \<noteq> ZX_OK then []
        else VkCreateSemaphore #
          (if create_semaphore_result e \<noteq> VK_SUCCESS then []
           else [VkImportSemaphoreZirconHandle]))"

definition reset_trace :: "reset_env \<Rightarrow> bool \<Rightarrow> 'cb effect list" where
  "reset_trace e cb =
     EventSignal acquire_event #
       (if acquire_signal_status e \<noteq> ZX_OK then [] else [EventSignal release_event])
     @ (if cb then [VkWaitForFences] else [])
     @ [VkResetFences, SemaphoreReset]
     @ semaphore_trace (reset_semaphore e) acquire_event
     @ [WaitBegin]"

definition reset_state :: "reset_env \<Rightarrow> 'cb VulkanSurface \<Rightarrow> 'cb VulkanSurface" where
  "reset_state e s =
     s\<lparr>acquire_semaphore := semaphore_ok (reset_semaphore e),
       command_buffer := False,
       pending_on_writes_committed := None,
       valid := (valid s \<and> acquire_signal_status e = ZX_OK \<and> release_signal_status e = ZX_OK),
       trace := trace s @ reset_trace e (command_buffer s)\<rparr>"

definition flush_ok :: "flush_env \<Rightarrow> bool" where
  "flush_ok e = (acquire_duplicate_status e = ZX_OK \<and> release_duplicate_status e = ZX_OK)"

definition flush_trace :: "flush_env \<Rightarrow> 'cb effect list" where
  "flush_trace e =
     EventDuplicate acquire_event #
       (if acquire_duplicate_status e \<noteq> ZX_OK then []
        else EventDuplicate release_event #
          (if release_duplicate_status e \<noteq> ZX_OK then []
           else [EnqueueAcquireFence acquire_event, EnqueueReleaseFence release_event]))"

text \<open>
  \<open>registers e sz\<close>: \<open>AllocateDeviceMemory\<close> gets as far as registering the buffer
  collection with the session. \<open>surface_of sz\<close>: the Skia surface made for size \<open>sz\<close>.
\<close>

definition registers :: "alloc_env \<Rightarrow> SkISize \<Rightarrow> bool" where
  "registers e sz =
     (\<not> isEmpty sz \<and> allocate_shared_collection_status e = ZX_OK
      \<and> token_duplicate_status e = ZX_OK \<and> token_sync_status e = ZX_OK)"

definition surface_of :: "SkISize \<Rightarrow> SkSurface" where
  "surface_of sz = \<lparr>width = fWidth sz, height = fHeight sz\<rparr>"

subsection \<open>Sequences of calls\<close>

text \<open>
  The calls a client can make on a constructed surface, and the dispatcher's call of
  \<open>OnHandleReady\<close>. \<open>calls\<close> runs a list of them and stops at the first fatal outcome.
  The two queries are \<^verbatim>\<open>const\<close> member functions: they return no surface, so the surface
  after them is the surface before.
\<close>

datatype 'cb operation =
  CallIsValid
| CallGetSize
| CallAdvanceAndGetAge
| CallFlush flush_env
| CallSignalWritesFinished "'cb option"
| CallOnHandleReady reset_env zx_status_t zx_packet_signal_t

fun call ::
  "('cb \<Rightarrow> 'cb VulkanSurface \<Rightarrow> 'cb VulkanSurface) \<Rightarrow> nat \<Rightarrow> 'cb operation \<Rightarrow> 'cb VulkanSurface
     \<Rightarrow> fatal + 'cb VulkanSurface" where
  "call run k CallIsValid s = Inr s"
| "call run k CallGetSize s = (case GetSize s of Inl f \<Rightarrow> Inl f | Inr _ \<Rightarrow> Inr s)"
| "call run k CallAdvanceAndGetAge s =
     (case AdvanceAndGetAge k s of Inl f \<Rightarrow> Inl f | Inr r \<Rightarrow> Inr (snd r))"
| "call run k (CallFlush e) s = Inr (snd (FlushSessionAcquireAndReleaseEvents e s))"
| "call run k (CallSignalWritesFinished cb) s = SignalWritesFinished run s cb"
| "call run k (CallOnHandleReady e status signal) s = OnHandleReady run e status signal s"

fun calls ::
  "('cb \<Rightarrow> 'cb VulkanSurface \<Rightarrow> 'cb VulkanSurface) \<Rightarrow> nat \<Rightarrow> 'cb operation list \<Rightarrow> 'cb VulkanSurface
     \<Rightarrow> fatal + 'cb VulkanSurface" where
  "calls run k [] s = Inr s"
| "calls run k (c # cs) s =
     (case call run k c s of Inl f \<Rightarrow> Inl f | Inr s' \<Rightarrow> calls run k cs s')"

text \<open>
  Callbacks are the caller's code. \<^verbatim>\<open>valid_\<close> and \<^verbatim>\<open>sk_surface_\<close> are private members that
  no public member function writes, so a callback cannot change them.
\<close>

definition callbacks_keep_surface ::
  "('cb \<Rightarrow> 'cb VulkanSurface \<Rightarrow> 'cb VulkanSurface) \<Rightarrow> bool" where
  "callbacks_keep_surface run =
     (\<forall>c t. valid (run c t) = valid t \<and> sk_surface (run c t) = sk_surface t)"

subsection \<open>A concrete construction\<close>

text \<open>
  An environment in which every call succeeds, and the surface that the constructor builds
  in it for a 4 by 3 image with buffer id 5 and a size history of length 2
  (lemma \<open>ctor_example\<close>).
\<close>

definition example_alloc :: alloc_env where
  "example_alloc =
     \<lparr>allocate_shared_collection_status = 0, token_duplicate_status = 0, token_sync_status = 0,
      create_buffer_collection_result = 0, set_constraints_result = 0, create_image_result = 0,
      image_memory_requirements = \<lparr>req_size = 48, memoryTypeBits = 6\<rparr>,
      get_collection_properties_result = 0, collection_memoryTypeBits = 12,
      allocate_memory_result = 0, bind_image_memory_result = 0, make_surface_result = Made\<rparr>"

definition example_semaphore :: semaphore_env where
  "example_semaphore =
     \<lparr>duplicate_status = 0, create_semaphore_result = 0, import_semaphore_result = 0\<rparr>"

definition example_reset :: reset_env where
  "example_reset =
     \<lparr>acquire_signal_status = 0, release_signal_status = 0, reset_semaphore = example_semaphore\<rparr>"

definition example_env :: ctor_env where
  "example_env =
     \<lparr>alloc = example_alloc,
      fences = \<lparr>acquire_create_status = 0, fences_semaphore = example_semaphore,
                release_create_status = 0\<rparr>,
      resource_id = 1, ctor_reset = example_reset\<rparr>"

definition example_flush :: flush_env where
  "example_flush = \<lparr>acquire_duplicate_status = 0, release_duplicate_status = 0\<rparr>"

definition example_surface :: "nat VulkanSurface" where
  "example_surface =
     \<lparr>vulkan_image =
        Some \<lparr>extent_width = 4, extent_height = 3,
              vk_memory_requirements = \<lparr>req_size = 48, memoryTypeBits = 6\<rparr>\<rparr>,
      vk_memory_info = Some \<lparr>allocationSize = 48, memoryTypeIndex = 2\<rparr>,
      sk_surface = Some \<lparr>width = 4, height = 3\<rparr>, buffer_id = 5, image_id = 1,
      acquire_semaphore = True, command_buffer = False, pending_on_writes_committed = None,
      size_history = [Some MakeEmpty, Some MakeEmpty],
      size_history_index = 0, age = 0, valid = True,
      trace =
        [AllocateSharedCollection, TokenDuplicate, TokenSync, RegisterBufferCollection 5,
         VkCreateBufferCollection, VkSetBufferCollectionConstraints 4 3, VkCreateImage,
         VkGetImageMemoryRequirements, VkGetBufferCollectionProperties,
         VkAllocateMemory \<lparr>allocationSize = 48, memoryTypeIndex = 2\<rparr>,
         VkBindImageMemory, MakeFromBackendRenderTarget 4 3,
         EventCreate acquire_event, EventDuplicate acquire_event, VkCreateSemaphore,
         VkImportSemaphoreZirconHandle, EventCreate release_event, CreateFence,
         AllocResourceId, Enqueue (CreateImage2Cmd 1 4 3 5 0), WaitSetObject release_event,
         WaitSetTrigger, EventSignal acquire_event, EventSignal release_event, VkResetFences,
         SemaphoreReset, EventDuplicate acquire_event, VkCreateSemaphore,
         VkImportSemaphoreZirconHandle, WaitBegin]\<rparr>"

text \<open>
  The same construction with buffer id 0, and a callback semantics that does nothing.
\<close>

definition example_run :: "nat \<Rightarrow> nat VulkanSurface \<Rightarrow> nat VulkanSurface" where
  "example_run c t = t"

definition example_surface_zero_id :: "nat VulkanSurface" where
  "example_surface_zero_id =
     example_surface
       \<lparr>buffer_id := 0,
        trace :=
          [AllocateSharedCollection, TokenDuplicate, TokenSync, RegisterBufferCollection 0,
           VkCreateBufferCollection, VkSetBufferCollectionConstraints 4 3, VkCreateImage,
           VkGetImageMemoryRequirements, VkGetBufferCollectionProperties,
           VkAllocateMemory \<lparr>allocationSize = 48, memoryTypeIndex = 2\<rparr>,
           VkBindImageMemory, MakeFromBackendRenderTarget 4 3,
           EventCreate acquire_event, EventDuplicate acquire_event, VkCreateSemaphore,
           VkImportSemaphoreZirconHandle, EventCreate release_event, CreateFence,
           AllocResourceId, Enqueue (CreateImage2Cmd 1 4 3 0 0), WaitSetObject release_event,
           WaitSetTrigger, EventSignal acquire_event, EventSignal release_event, VkResetFences,
           SemaphoreReset, EventDuplicate acquire_event, VkCreateSemaphore,
           VkImportSemaphoreZirconHandle, WaitBegin]\<rparr>"

section \<open>Properties\<close>

subsection \<open>Auxiliary facts\<close>

lemma emit_fields [simp]:
  "vulkan_image (emit ev s) = vulkan_image s"
  "vk_memory_info (emit ev s) = vk_memory_info s"
  "sk_surface (emit ev s) = sk_surface s"
  "buffer_id (emit ev s) = buffer_id s"
  "image_id (emit ev s) = image_id s"
  "acquire_semaphore (emit ev s) = acquire_semaphore s"
  "command_buffer (emit ev s) = command_buffer s"
  "pending_on_writes_committed (emit ev s) = pending_on_writes_committed s"
  "size_history (emit ev s) = size_history s"
  "size_history_index (emit ev s) = size_history_index s"
  "age (emit ev s) = age s"
  "valid (emit ev s) = valid s"
  "trace (emit ev s) = trace s @ [ev]"
  by (simp_all add: emit_def)

lemma SemaphoreFromEvent_eq:
  "SemaphoreFromEvent e ev s = (semaphore_ok e, s\<lparr>trace := trace s @ semaphore_trace e ev\<rparr>)"
  by (simp add: SemaphoreFromEvent_def semaphore_ok_def semaphore_trace_def emit_def Let_def)

lemma Reset_eq:
  "Reset run e s =
     (case pending_on_writes_committed s of
        None \<Rightarrow> reset_state e s
      | Some c \<Rightarrow> run c (emit (InvokeCallback c) (reset_state e s)))"
proof -
  have wait: "(if command_buffer t then (emit VkWaitForFences t)\<lparr>command_buffer := False\<rparr> else t)
      = t\<lparr>command_buffer := False,
           trace := trace t @ (if command_buffer t then [VkWaitForFences] else [])\<rparr>"
    for t :: "'a VulkanSurface"
    by (cases t) (simp add: emit_def)
  show ?thesis
    apply (simp only: Reset_def Let_def SemaphoreFromEvent_eq fst_conv snd_conv wait)
    apply (cases s)
    apply (simp add: reset_state_def reset_trace_def emit_def split: option.split)
    done
qed

lemma Flush_eq:
  "FlushSessionAcquireAndReleaseEvents e s =
     (flush_ok e, s\<lparr>age := (if flush_ok e then 0 else age s),
                    trace := trace s @ flush_trace e\<rparr>)"
  by (cases s)
     (simp add: FlushSessionAcquireAndReleaseEvents_def flush_ok_def flush_trace_def emit_def
        Let_def)

lemma GetSize_cong:
  "valid s' = valid s \<Longrightarrow> sk_surface s' = sk_surface s \<Longrightarrow> GetSize s' = GetSize s"
  by (simp add: GetSize_def)

lemma AdvanceAndGetAge_Inr:
  assumes "size_history_index s < kSizeHistorySize"
    and "length (size_history s) = kSizeHistorySize"
    and "GetSize s = Inr sz"
  shows "AdvanceAndGetAge kSizeHistorySize s =
           Inr (age s + 1,
                s\<lparr>size_history := (size_history s)[size_history_index s := Some sz],
                  size_history_index := (size_history_index s + 1) mod kSizeHistorySize,
                  age := age s + 1\<rparr>)"
  using assms by (simp add: AdvanceAndGetAge_def Let_def)

lemma AdvanceAndGetAge_keeps:
  assumes "size_history_index s < kSizeHistorySize"
    and "length (size_history s) = kSizeHistorySize"
    and "GetSize s = Inr sz"
  shows "\<exists>s'. AdvanceAndGetAge kSizeHistorySize s = Inr (age s + 1, s')
           \<and> age s' = age s + 1
           \<and> size_history_index s' < kSizeHistorySize
           \<and> length (size_history s') = kSizeHistorySize
           \<and> GetSize s' = Inr sz"
proof -
  have pos: "0 < kSizeHistorySize" using assms(1) by simp
  let ?s' = "s\<lparr>size_history := (size_history s)[size_history_index s := Some sz],
                size_history_index := (size_history_index s + 1) mod kSizeHistorySize,
                age := age s + 1\<rparr>"
  have "GetSize ?s' = GetSize s" by (rule GetSize_cong) simp_all
  with assms pos AdvanceAndGetAge_Inr [OF assms] show ?thesis by simp
qed

lemma three_advances:
  assumes "size_history_index s < kSizeHistorySize"
    and "length (size_history s) = kSizeHistorySize"
    and "GetSize s = Inr sz"
  shows "\<exists>s1 s2 s3. AdvanceAndGetAge kSizeHistorySize s = Inr (age s + 1, s1)
           \<and> AdvanceAndGetAge kSizeHistorySize s1 = Inr (age s + 2, s2)
           \<and> AdvanceAndGetAge kSizeHistorySize s2 = Inr (age s + 3, s3)"
proof -
  from AdvanceAndGetAge_keeps [OF assms] obtain s1 where
    r1: "AdvanceAndGetAge kSizeHistorySize s = Inr (age s + 1, s1)"
    and a1: "age s1 = age s + 1" and i1: "size_history_index s1 < kSizeHistorySize"
    and l1: "length (size_history s1) = kSizeHistorySize" and g1: "GetSize s1 = Inr sz"
    by blast
  from AdvanceAndGetAge_keeps [OF i1 l1 g1] obtain s2 where
    r2: "AdvanceAndGetAge kSizeHistorySize s1 = Inr (age s1 + 1, s2)"
    and a2: "age s2 = age s1 + 1" and i2: "size_history_index s2 < kSizeHistorySize"
    and l2: "length (size_history s2) = kSizeHistorySize" and g2: "GetSize s2 = Inr sz"
    by blast
  from AdvanceAndGetAge_keeps [OF i2 l2 g2] obtain s3 where
    r3: "AdvanceAndGetAge kSizeHistorySize s2 = Inr (age s2 + 1, s3)"
    by blast
  have "age s1 + 1 = age s + 2" "age s2 + 1 = age s + 3" by (simp_all add: a1 a2)
  with r1 r2 r3 show ?thesis by metis
qed

lemma session_calls_simps [simp]:
  "session_calls [] = []"
  "session_calls (t @ u) = session_calls t @ session_calls u"
  "session_calls (ev # t) = (if is_session_call ev then ev # session_calls t else session_calls t)"
  by (simp_all add: session_calls_def)

lemma builtin_ctz_Some:
  "builtin_ctz x = Some n \<Longrightarrow> bit x n \<and> n < 32"
  unfolding builtin_ctz_def find_Some_iff by auto

lemma builtin_ctz_nonzero:
  assumes "x \<noteq> 0"
  shows "\<exists>n. builtin_ctz x = Some n"
proof -
  from assms obtain n where n: "bit x n" by (auto simp: bit_eq_iff)
  then have "n < 32" by (auto dest: bit_imp_le_length)
  with n have "\<exists>m\<in>set [0..<32]. bit x m" by auto
  then have "find (bit x) [0..<32] \<noteq> None" unfolding find_None_iff by blast
  then show ?thesis by (auto simp: builtin_ctz_def)
qed

lemma unat_index: "n < 32 \<Longrightarrow> unat (of_nat n :: u32) = n"
  by (simp add: unat_of_nat take_bit_nat_eq_self)

lemma AllocateDeviceMemory_unchanged:
  assumes "AllocateDeviceMemory e context sz bid s = Inr (ok, s')"
  shows "pending_on_writes_committed s' = pending_on_writes_committed s"
    and "valid s' = valid s"
    and "age s' = age s"
    and "image_id s' = image_id s"
    and "size_history s' = size_history s"
    and "size_history_index s' = size_history_index s"
    and "command_buffer s' = command_buffer s"
    and "acquire_semaphore s' = acquire_semaphore s"
  using assms
  by (auto simp: AllocateDeviceMemory_def CreateVulkanImage_def SetupSkiaSurface_def FML_DCHECK_def Let_def
      split: if_splits option.splits made_surface.splits)

lemma AllocateDeviceMemory_sk_surface:
  assumes "AllocateDeviceMemory e context sz bid s = Inr (ok, s')"
  shows "sk_surface s' = (if ok then Some \<lparr>width = fWidth sz, height = fHeight sz\<rparr> else sk_surface s)"
  using assms
  by (auto simp: AllocateDeviceMemory_def CreateVulkanImage_def SetupSkiaSurface_def FML_DCHECK_def Let_def
      split: if_splits option.splits made_surface.splits)

lemma AllocateDeviceMemory_session:
  assumes "AllocateDeviceMemory e context sz bid s = Inr (ok, s')"
  shows "buffer_id s' = (if registers e sz then bid else buffer_id s)"
    and "session_calls (trace s') =
           session_calls (trace s) @ (if registers e sz then [RegisterBufferCollection bid] else [])"
    and "ok \<longrightarrow> registers e sz"
  using assms
  by (auto simp: AllocateDeviceMemory_def CreateVulkanImage_def SetupSkiaSurface_def FML_DCHECK_def Let_def registers_def
      split: if_splits option.splits made_surface.splits)


lemma AllocateDeviceMemory_chooses:
  fixes s :: "'cb VulkanSurface"
  assumes bits: "memoryTypeBits (image_memory_requirements e) AND collection_memoryTypeBits e \<noteq> 0"
    and reach: "registers e sz" "create_buffer_collection_result e = VK_SUCCESS"
      "set_constraints_result e = VK_SUCCESS" "create_image_result e = VK_SUCCESS"
      "get_collection_properties_result e = VK_SUCCESS"
  shows "\<exists>ok s' n. AllocateDeviceMemory e context sz bid s = Inr (ok, s')
      \<and> builtin_ctz (memoryTypeBits (image_memory_requirements e) AND collection_memoryTypeBits e)
          = Some n
      \<and> VkAllocateMemory \<lparr>allocationSize = req_size (image_memory_requirements e),
                           memoryTypeIndex = of_nat n\<rparr> \<in> set (trace s')"
proof -
  from builtin_ctz_nonzero [OF bits] obtain n where
    n: "builtin_ctz (memoryTypeBits (image_memory_requirements e) AND collection_memoryTypeBits e)
          = Some n" ..
  show ?thesis
    using bits reach n
    by (auto simp: AllocateDeviceMemory_def CreateVulkanImage_def SetupSkiaSurface_def
          FML_DCHECK_def Let_def registers_def split: if_splits made_surface.splits)
qed

lemma CreateFences_unchanged:
  assumes "CreateFences e s = (ok, s')"
  shows "pending_on_writes_committed s' = pending_on_writes_committed s"
    and "valid s' = valid s"
    and "age s' = age s"
    and "image_id s' = image_id s"
    and "buffer_id s' = buffer_id s"
    and "sk_surface s' = sk_surface s"
    and "size_history s' = size_history s"
    and "size_history_index s' = size_history_index s"
    and "session_calls (trace s') = session_calls (trace s)"
  using assms
  by (auto simp: CreateFences_def SemaphoreFromEvent_eq semaphore_trace_def Let_def split: if_splits)

lemma PushSessionImageSetupOps_Inr:
  assumes "PushSessionImageSetupOps new_id s = Inr s'"
  shows "pending_on_writes_committed s' = pending_on_writes_committed s"
    and "valid s' = valid s"
    and "age s' = age s"
    and "buffer_id s' = buffer_id s"
    and "sk_surface s' = sk_surface s"
    and "size_history s' = size_history s"
    and "size_history_index s' = size_history_index s"
    and "image_id s = 0 \<Longrightarrow> image_id s' = new_id"
    and "image_id s = 0 \<Longrightarrow> sk_surface s = Some sf \<Longrightarrow> session_calls (trace s') =
           session_calls (trace s) @
             [AllocResourceId, Enqueue (CreateImage2Cmd new_id (width sf) (height sf) (buffer_id s) 0)]"
  using assms
  by (auto simp: PushSessionImageSetupOps_def Let_def split: if_splits option.splits)

lemma reset_state_fields [simp]:
  "pending_on_writes_committed (reset_state e s) = None"
  "valid (reset_state e s) =
     (valid s \<and> acquire_signal_status e = ZX_OK \<and> release_signal_status e = ZX_OK)"
  "age (reset_state e s) = age s"
  "image_id (reset_state e s) = image_id s"
  "buffer_id (reset_state e s) = buffer_id s"
  "sk_surface (reset_state e s) = sk_surface s"
  "size_history (reset_state e s) = size_history s"
  "size_history_index (reset_state e s) = size_history_index s"
  "session_calls (trace (reset_state e s)) = session_calls (trace s)"
  by (simp_all add: reset_state_def reset_trace_def semaphore_trace_def)

lemma initial_fields [simp]:
  "pending_on_writes_committed (initial k) = None"
  "valid (initial k) = False"
  "age (initial k) = 0"
  "image_id (initial k) = 0"
  "buffer_id (initial k) = 0"
  "sk_surface (initial k) = None"
  "size_history (initial k) = replicate k None"
  "size_history_index (initial k) = 0"
  "trace (initial k) = []"
  by (simp_all add: initial_def)

lemma ctor_Inr:
  fixes s :: "'cb VulkanSurface"
  assumes "VulkanSurface_ctor run e k session context sz bid = Inr s"
  shows "pending_on_writes_committed s = None"
    and "age s = 0"
    and "size_history_index s = 0"
    and "length (size_history s) = k"
    and "buffer_id s = (if registers (alloc e) sz then bid else 0)"
    and "image_id s = (if valid s then resource_id e else 0)"
    and "valid s \<longrightarrow> sk_surface s = Some (surface_of sz)"
    and "session_calls (trace s) =
           (if registers (alloc e) sz then [RegisterBufferCollection bid] else [])
           @ (if valid s
              then [AllocResourceId,
                    Enqueue (CreateImage2Cmd (resource_id e) (fWidth sz) (fHeight sz) bid 0)]
              else [])"
proof -
  have "\<exists>ok1 s1. AllocateDeviceMemory (alloc e) context sz bid (initial k :: 'cb VulkanSurface) = Inr (ok1, s1)"
  proof (cases "AllocateDeviceMemory (alloc e) context sz bid (initial k :: 'cb VulkanSurface)")
    case (Inl f)
    with assms show ?thesis
      by (simp add: VulkanSurface_ctor_def FML_DCHECK_def split: if_splits)
  next
    case (Inr r)
    then show ?thesis by (cases r) simp
  qed
  then obtain ok1 s1 where
    a: "AllocateDeviceMemory (alloc e) context sz bid (initial k :: 'cb VulkanSurface) = Inr (ok1, s1)"
    by blast
  note a1 = AllocateDeviceMemory_unchanged [OF a] AllocateDeviceMemory_sk_surface [OF a]
    AllocateDeviceMemory_session [OF a]
  obtain ok2 s2 where f: "CreateFences (fences e) s1 = (ok2, s2)"
    by (cases "CreateFences (fences e) s1")
  note f1 = CreateFences_unchanged [OF f]
  have goal: "pending_on_writes_committed s = None \<and> age s = 0 \<and> size_history_index s = 0
    \<and> length (size_history s) = k
    \<and> buffer_id s = (if registers (alloc e) sz then bid else 0)
    \<and> image_id s = (if valid s then resource_id e else 0)
    \<and> (valid s \<longrightarrow> sk_surface s = Some (surface_of sz))
    \<and> session_calls (trace s) =
           (if registers (alloc e) sz then [RegisterBufferCollection bid] else [])
           @ (if valid s
              then [AllocResourceId,
                    Enqueue (CreateImage2Cmd (resource_id e) (fWidth sz) (fHeight sz) bid 0)]
              else [])"
  proof (cases "ok1 \<and> ok2")
    case False
    then have "s = s1 \<or> s = s2"
      using assms a f
      by (auto simp: VulkanSurface_ctor_def FML_DCHECK_def split: if_splits sum.splits)
    then show ?thesis
      using a1 f1 False by (auto split: if_splits)
  next
    case True
    then obtain s3 where p: "PushSessionImageSetupOps (resource_id e) s2 = Inr s3"
      and s: "s = (Reset run (ctor_reset e)
                    (emit WaitSetTrigger (emit (WaitSetObject release_event)
                      (s3\<lparr>size_history := map (\<lambda>_. Some MakeEmpty) (size_history s3)\<rparr>))))
                  \<lparr>valid := True\<rparr>"
      using assms a f
      by (auto simp: VulkanSurface_ctor_def FML_DCHECK_def Let_def split: if_splits sum.splits)
    have i2: "image_id s2 = 0" and k2: "sk_surface s2 = Some (surface_of sz)"
      using a1 f1 True by (simp_all add: surface_of_def)
    note p1 = PushSessionImageSetupOps_Inr [OF p]
    show ?thesis
      using a1 f1 True p1(1-7) p1(8) [OF i2] p1(9) [OF i2 k2]
      by (simp add: s Reset_eq surface_of_def)
  qed
  from goal show "pending_on_writes_committed s = None"
    and "age s = 0"
    and "size_history_index s = 0"
    and "length (size_history s) = k"
    and "buffer_id s = (if registers (alloc e) sz then bid else 0)"
    and "image_id s = (if valid s then resource_id e else 0)"
    and "valid s \<longrightarrow> sk_surface s = Some (surface_of sz)"
    and "session_calls (trace s) =
           (if registers (alloc e) sz then [RegisterBufferCollection bid] else [])
           @ (if valid s
              then [AllocResourceId,
                    Enqueue (CreateImage2Cmd (resource_id e) (fWidth sz) (fHeight sz) bid 0)]
              else [])"
    by blast+
qed

lemma builtin_ctz_4: "builtin_ctz 4 = Some 2"
  by code_simp

lemma replicate_2: "replicate 2 x = [x, x]"
  by (simp add: numeral_2_eq_2)

lemma ctor_example:
  "VulkanSurface_ctor (\<lambda>c t. t) example_env 2 True True (Make 4 3) 5 = Inr example_surface"
  by (simp add: VulkanSurface_ctor_def AllocateDeviceMemory_def CreateVulkanImage_def
        SetupSkiaSurface_def CreateFences_def SemaphoreFromEvent_eq semaphore_ok_def
        semaphore_trace_def PushSessionImageSetupOps_def Reset_eq reset_state_def
        reset_trace_def FML_DCHECK_def Let_def emit_def initial_def isEmpty_def Make_def
        MakeEmpty_def ZX_OK_def VK_SUCCESS_def builtin_ctz_4 replicate_2
        example_env_def example_alloc_def example_semaphore_def example_reset_def
        example_surface_def)

lemma ctor_example_zero_id:
  "VulkanSurface_ctor example_run example_env 2 True True (Make 4 3) 0
     = Inr example_surface_zero_id"
  by (simp add: VulkanSurface_ctor_def AllocateDeviceMemory_def CreateVulkanImage_def
        SetupSkiaSurface_def CreateFences_def SemaphoreFromEvent_eq semaphore_ok_def
        semaphore_trace_def PushSessionImageSetupOps_def Reset_eq reset_state_def
        reset_trace_def FML_DCHECK_def Let_def emit_def initial_def isEmpty_def Make_def
        MakeEmpty_def ZX_OK_def VK_SUCCESS_def builtin_ctz_4 replicate_2
        example_env_def example_alloc_def example_semaphore_def example_reset_def
        example_surface_def example_surface_zero_id_def)

lemma call_keeps_surface:
  assumes frame: "callbacks_keep_surface run"
    and inv: "valid s \<longrightarrow> sk_surface s = Some sf"
    and step: "call run k c s = Inr s'"
  shows "valid s' \<longrightarrow> sk_surface s' = Some sf"
proof (cases c)
  case CallIsValid
  with inv step show ?thesis by simp
next
  case CallGetSize
  with inv step show ?thesis by (simp split: sum.splits)
next
  case CallAdvanceAndGetAge
  with inv step show ?thesis
    by (auto simp: AdvanceAndGetAge_def Let_def split: sum.splits if_splits)
next
  case (CallFlush e)
  with inv step show ?thesis by (auto simp: Flush_eq)
next
  case (CallSignalWritesFinished cb)
  with inv step frame show ?thesis
    by (auto simp: SignalWritesFinished_def FML_DCHECK_def Check_def callbacks_keep_surface_def
        split: if_splits option.splits)
next
  case (CallOnHandleReady e status signal)
  with inv step frame show ?thesis
    by (auto simp: OnHandleReady_def FML_DCHECK_def Reset_eq callbacks_keep_surface_def
        split: if_splits option.splits)
qed

lemma calls_keep_surface:
  assumes frame: "callbacks_keep_surface run"
  shows "calls run k cs s = Inr s' \<Longrightarrow> valid s \<longrightarrow> sk_surface s = Some sf
           \<Longrightarrow> valid s' \<longrightarrow> sk_surface s' = Some sf"
proof (induction cs arbitrary: s)
  case Nil
  then show ?case by simp
next
  case (Cons c cs)
  from Cons.prems(1) obtain s1 where c: "call run k c s = Inr s1"
    and cs: "calls run k cs s1 = Inr s'"
    by (cases "call run k c s") simp_all
  from call_keeps_surface [OF frame Cons.prems(2) c]
  show ?case by (rule Cons.IH [OF cs])
qed

lemma Make_fields: "Make (fWidth sz) (fHeight sz) = sz"
  by (simp add: Make_def)

subsection \<open>Flushing the fences\<close>

text \<open>
  Claim C2. \<open>FlushSessionAcquireAndReleaseEvents\<close> returns true exactly when both event
  duplications succeed. Whatever it returns, it changes no member other than the age and
  the trace. When it returns false the age is what it was and no call has gone to the
  session; when it returns true the age is zero and the session has received, in this
  order, the duplicated acquire event as acquire fence and the duplicated release event as
  release fence.
\<close>

theorem Flush_result:
  assumes "FlushSessionAcquireAndReleaseEvents e s = (ok, s')"
  shows "ok = (acquire_duplicate_status e = ZX_OK \<and> release_duplicate_status e = ZX_OK)
    \<and> s'\<lparr>trace := trace s, age := age s\<rparr> = s
    \<and> (\<not> ok \<longrightarrow> age s' = age s \<and> session_calls (trace s') = session_calls (trace s))
    \<and> (ok \<longrightarrow> age s' = 0 \<and> session_calls (trace s') =
          session_calls (trace s) @ [EnqueueAcquireFence acquire_event, EnqueueReleaseFence release_event])"
  using assms unfolding Flush_eq
  by (cases s) (auto simp: flush_ok_def flush_trace_def session_calls_def)

theorem Flush_result_witness:
  "FlushSessionAcquireAndReleaseEvents \<lparr>acquire_duplicate_status = 0, release_duplicate_status = 0\<rparr>
       ((initial 3 :: nat VulkanSurface)\<lparr>age := 7\<rparr>)
     = (True, (initial 3)\<lparr>age := 0, trace := [EventDuplicate acquire_event, EventDuplicate release_event,
                 EnqueueAcquireFence acquire_event, EnqueueReleaseFence release_event]\<rparr>)
   \<and> session_calls (trace ((initial 3 :: nat VulkanSurface)\<lparr>age := 0, trace := [EventDuplicate acquire_event, EventDuplicate release_event,
                 EnqueueAcquireFence acquire_event, EnqueueReleaseFence release_event]\<rparr>))
       = [EnqueueAcquireFence acquire_event, EnqueueReleaseFence release_event]"
proof -
  have h: "FlushSessionAcquireAndReleaseEvents \<lparr>acquire_duplicate_status = 0, release_duplicate_status = 0\<rparr>
       ((initial 3 :: nat VulkanSurface)\<lparr>age := 7\<rparr>)
     = (True, (initial 3)\<lparr>age := 0, trace := [EventDuplicate acquire_event, EventDuplicate release_event,
                 EnqueueAcquireFence acquire_event, EnqueueReleaseFence release_event]\<rparr>)"
    by (simp add: FlushSessionAcquireAndReleaseEvents_def emit_def initial_def ZX_OK_def Let_def)
  show ?thesis using h Flush_result [OF h] by (simp add: initial_def session_calls_def)
qed

subsection \<open>Age and size history\<close>

text \<open>
  Claim C3. On a surface whose history index lies inside the history array, and whose size
  query returns \<open>sz\<close>, \<open>AdvanceAndGetAge\<close> stores \<open>sz\<close> in the array at the index,
  advances the index modulo \<open>kSizeHistorySize\<close>, adds one to the age (a 64-bit counter) and
  returns the new age. Three calls in a row return the age plus 1, 2 and 3; after a flush
  that returned true, they return 1, 2 and 3.
\<close>

theorem Advance_result:
  assumes idx: "size_history_index s < kSizeHistorySize"
    and len: "length (size_history s) = kSizeHistorySize"
    and sz: "GetSize s = Inr sz"
  shows "AdvanceAndGetAge kSizeHistorySize s =
           Inr (age s + 1,
                s\<lparr>size_history := (size_history s)[size_history_index s := Some sz],
                  size_history_index := (size_history_index s + 1) mod kSizeHistorySize,
                  age := age s + 1\<rparr>)
    \<and> (\<exists>s1 s2 s3. AdvanceAndGetAge kSizeHistorySize s = Inr (age s + 1, s1)
           \<and> AdvanceAndGetAge kSizeHistorySize s1 = Inr (age s + 2, s2)
           \<and> AdvanceAndGetAge kSizeHistorySize s2 = Inr (age s + 3, s3))
    \<and> (\<forall>fe s0. FlushSessionAcquireAndReleaseEvents fe s = (True, s0) \<longrightarrow>
          (\<exists>s1 s2 s3. AdvanceAndGetAge kSizeHistorySize s0 = Inr (1, s1)
             \<and> AdvanceAndGetAge kSizeHistorySize s1 = Inr (2, s2)
             \<and> AdvanceAndGetAge kSizeHistorySize s2 = Inr (3, s3)))"
proof (intro conjI allI impI)
  show "AdvanceAndGetAge kSizeHistorySize s =
           Inr (age s + 1,
                s\<lparr>size_history := (size_history s)[size_history_index s := Some sz],
                  size_history_index := (size_history_index s + 1) mod kSizeHistorySize,
                  age := age s + 1\<rparr>)"
    by (rule AdvanceAndGetAge_Inr [OF idx len sz])
next
  show "\<exists>s1 s2 s3. AdvanceAndGetAge kSizeHistorySize s = Inr (age s + 1, s1)
           \<and> AdvanceAndGetAge kSizeHistorySize s1 = Inr (age s + 2, s2)
           \<and> AdvanceAndGetAge kSizeHistorySize s2 = Inr (age s + 3, s3)"
    by (rule three_advances [OF idx len sz])
next
  fix fe s0
  assume fl: "FlushSessionAcquireAndReleaseEvents fe s = (True, s0)"
  have s0: "s0 = s\<lparr>age := 0, trace := trace s @ flush_trace fe\<rparr>"
    using fl unfolding Flush_eq by auto
  have a0: "age s0 = 0" and i0: "size_history_index s0 < kSizeHistorySize"
    and l0: "length (size_history s0) = kSizeHistorySize"
    using idx len by (simp_all add: s0)
  have g0: "GetSize s0 = Inr sz"
    using sz GetSize_cong [of s0 s] by (simp add: s0)
  from three_advances [OF i0 l0 g0]
  show "\<exists>s1 s2 s3. AdvanceAndGetAge kSizeHistorySize s0 = Inr (1, s1)
             \<and> AdvanceAndGetAge kSizeHistorySize s1 = Inr (2, s2)
             \<and> AdvanceAndGetAge kSizeHistorySize s2 = Inr (3, s3)"
    by (simp add: a0)
qed

theorem Advance_result_witness:
  "size_history_index (initial 3 :: nat VulkanSurface) < 3
   \<and> length (size_history (initial 3 :: nat VulkanSurface)) = 3
   \<and> GetSize (initial 3 :: nat VulkanSurface) = Inr (Make 0 0)
   \<and> AdvanceAndGetAge 3 (initial 3 :: nat VulkanSurface) =
       Inr (1, (initial 3)\<lparr>size_history := (replicate 3 None)[0 := Some (Make 0 0)],
                           size_history_index := 1, age := 1\<rparr>)"
proof -
  have h1: "size_history_index (initial 3 :: nat VulkanSurface) < 3"
    and h2: "length (size_history (initial 3 :: nat VulkanSurface)) = 3"
    and h3: "GetSize (initial 3 :: nat VulkanSurface) = Inr (Make 0 0)"
    by (simp_all add: GetSize_def)
  show ?thesis
    using h1 h2 h3 Advance_result [OF h1 h2 h3, THEN conjunct1] by simp
qed

subsection \<open>Registering the completion callback\<close>

text \<open>
  Claim C4. On a valid surface, \<open>SignalWritesFinished\<close> with a callback stops at the
  double-registration check whenever a callback is already pending; in particular a first
  call on an empty slot registers its callback, and a second call on the resulting surface
  stops at the check, leaving no updated surface.
\<close>

theorem Signal_twice:
  assumes "valid s"
  shows "(pending_on_writes_committed s \<noteq> None \<longrightarrow>
            SignalWritesFinished run s (Some c) = Inl CheckFailed)
    \<and> (pending_on_writes_committed s = None \<longrightarrow>
            SignalWritesFinished run s (Some c) = Inr (s\<lparr>pending_on_writes_committed := Some c\<rparr>)
          \<and> SignalWritesFinished run (s\<lparr>pending_on_writes_committed := Some c\<rparr>) (Some c')
              = Inl CheckFailed)"
  using assms by (simp add: SignalWritesFinished_def FML_DCHECK_def Check_def)

theorem Signal_twice_witness:
  "valid ((initial 3 :: nat VulkanSurface)\<lparr>valid := True\<rparr>)
   \<and> SignalWritesFinished (\<lambda>c t. t) ((initial 3 :: nat VulkanSurface)\<lparr>valid := True\<rparr>) (Some 1)
       = Inr ((initial 3)\<lparr>valid := True, pending_on_writes_committed := Some 1\<rparr>)
   \<and> SignalWritesFinished (\<lambda>c t. t)
         ((initial 3 :: nat VulkanSurface)\<lparr>valid := True, pending_on_writes_committed := Some 1\<rparr>) (Some 2)
       = Inl CheckFailed"
proof -
  have h: "valid ((initial 3 :: nat VulkanSurface)\<lparr>valid := True\<rparr>)" by simp
  show ?thesis
    using h Signal_twice [OF h, of "\<lambda>c t. t" 1 2] by (simp add: initial_def)
qed

text \<open>
  Claim C10. On an invalid surface, \<open>SignalWritesFinished\<close> with a callback \<open>c\<close> returns
  what \<open>c\<close> returns when it is called at once on the surface as it is (the call recorded
  in the trace, the pending slot untouched, whatever the slot holds); and whenever
  \<open>SignalWritesFinished\<close> stops at the double-registration check the surface is valid.
\<close>

theorem Signal_invalid:
  "(\<not> valid s \<longrightarrow>
      SignalWritesFinished run s (Some c) = Inr (run c (emit (InvokeCallback c) s))
      \<and> pending_on_writes_committed (emit (InvokeCallback c) s) = pending_on_writes_committed s)
   \<and> (SignalWritesFinished run s cb = Inl CheckFailed \<longrightarrow> valid s)"
  by (auto simp: SignalWritesFinished_def FML_DCHECK_def Check_def split: option.splits if_splits)

theorem Signal_invalid_witness:
  "\<not> valid ((initial 3 :: nat VulkanSurface)\<lparr>pending_on_writes_committed := Some 1\<rparr>)
   \<and> SignalWritesFinished (\<lambda>c t. t\<lparr>age := 5\<rparr>)
        ((initial 3 :: nat VulkanSurface)\<lparr>pending_on_writes_committed := Some 1\<rparr>) (Some 2)
      = Inr ((initial 3)\<lparr>pending_on_writes_committed := Some 1, age := 5, trace := [InvokeCallback 2]\<rparr>)"
  using Signal_invalid [of "(initial 3 :: nat VulkanSurface)\<lparr>pending_on_writes_committed := Some 1\<rparr>"
      "\<lambda>c t. t\<lparr>age := 5\<rparr>" 2 None]
  by (simp add: initial_def emit_def)

subsection \<open>Reset\<close>

text \<open>
  Claim C6. \<open>Reset\<close> is a total function without a fatal outcome. Provided that callbacks
  leave the validity flag alone, the surface is valid after \<open>Reset\<close> exactly when it was
  valid before and both events were re-armed: a failed re-arm of either event leaves it
  invalid, and when both succeed the flag is what it was.
\<close>

theorem Reset_validity:
  assumes "\<And>c t. valid (run c t) = valid t"
  shows "valid (Reset run e s) =
           (valid s \<and> acquire_signal_status e = ZX_OK \<and> release_signal_status e = ZX_OK)"
  using assms by (simp add: Reset_eq reset_state_def split: option.split)

theorem Reset_validity_witness:
  "(\<forall>c t. valid ((\<lambda>c t. t\<lparr>age := 0\<rparr> :: nat VulkanSurface) c t) = valid t)
   \<and> \<not> valid (Reset (\<lambda>c t. t\<lparr>age := 0\<rparr>)
         \<lparr>acquire_signal_status = 0, release_signal_status = -1,
          reset_semaphore = \<lparr>duplicate_status = 0, create_semaphore_result = 0, import_semaphore_result = 0\<rparr>\<rparr>
         ((initial 3 :: nat VulkanSurface)\<lparr>valid := True, pending_on_writes_committed := Some 4\<rparr>))
   \<and> valid (Reset (\<lambda>c t. t\<lparr>age := 0\<rparr>)
         \<lparr>acquire_signal_status = 0, release_signal_status = 0,
          reset_semaphore = \<lparr>duplicate_status = 0, create_semaphore_result = 0, import_semaphore_result = 0\<rparr>\<rparr>
         ((initial 3 :: nat VulkanSurface)\<lparr>valid := True, pending_on_writes_committed := Some 4\<rparr>))"
proof -
  have h: "\<And>c t. valid ((\<lambda>c t. t\<lparr>age := 0\<rparr> :: nat VulkanSurface) c t) = valid t" by simp
  show ?thesis
    using Reset_validity [of "\<lambda>c t. t\<lparr>age := 0\<rparr> :: nat VulkanSurface", OF h]
    by (simp add: ZX_OK_def)
qed

text \<open>
  Claim C1. Let \<open>R\<close> be the result of \<open>Reset\<close> on the surface with an empty callback slot.
  Then \<open>R\<close> has an empty slot, does not depend on what callbacks do, and its trace invokes
  no callback beyond those of the trace before. \<open>Reset\<close> on the surface with callback
  \<open>c\<close> pending is the result of \<open>c\<close>, called once on \<open>R\<close>, with the call as the last entry
  of the trace: the callback sees the slot already empty and every other step of \<open>Reset\<close>
  done, and nothing happens after it. A release-event signal, that is \<open>OnHandleReady\<close> with
  status \<open>ZX_OK\<close> and the signalled bit observed, runs \<open>Reset\<close>.
\<close>

theorem Reset_callback:
  "pending_on_writes_committed (Reset run' e (s\<lparr>pending_on_writes_committed := None\<rparr>)) = None
   \<and> Reset run e (s\<lparr>pending_on_writes_committed := None\<rparr>)
       = Reset run' e (s\<lparr>pending_on_writes_committed := None\<rparr>)
   \<and> callbacks_invoked (trace (Reset run' e (s\<lparr>pending_on_writes_committed := None\<rparr>)))
       = callbacks_invoked (trace s)
   \<and> Reset run e (s\<lparr>pending_on_writes_committed := Some c\<rparr>)
       = run c (emit (InvokeCallback c) (Reset run' e (s\<lparr>pending_on_writes_committed := None\<rparr>)))
   \<and> (observed signal AND ZX_EVENT_SIGNALED \<noteq> 0 \<longrightarrow>
        OnHandleReady run e ZX_OK signal s = Inr (Reset run e s))"
  by (simp add: Reset_eq reset_state_def OnHandleReady_def FML_DCHECK_def callbacks_invoked_def
        reset_trace_def semaphore_trace_def)

theorem Reset_callback_witness:
  "OnHandleReady (\<lambda>c t. t\<lparr>age := of_nat c\<rparr>)
      \<lparr>acquire_signal_status = 0, release_signal_status = 0,
       reset_semaphore = \<lparr>duplicate_status = 0, create_semaphore_result = 0, import_semaphore_result = 0\<rparr>\<rparr>
      ZX_OK \<lparr>observed = 8\<rparr>
      ((initial 3 :: nat VulkanSurface)\<lparr>valid := True, pending_on_writes_committed := Some 4\<rparr>)
    = Inr ((initial 3)\<lparr>valid := True, acquire_semaphore := True, age := 4,
             trace := [EventSignal acquire_event, EventSignal release_event, VkResetFences,
                       SemaphoreReset, EventDuplicate acquire_event, VkCreateSemaphore,
                       VkImportSemaphoreZirconHandle, WaitBegin, InvokeCallback 4]\<rparr>)"
  using Reset_callback [of "\<lambda>c t. t\<lparr>age := of_nat c\<rparr>"
      "\<lparr>acquire_signal_status = 0, release_signal_status = 0,
       reset_semaphore = \<lparr>duplicate_status = 0, create_semaphore_result = 0, import_semaphore_result = 0\<rparr>\<rparr>"
      "(initial 3 :: nat VulkanSurface)\<lparr>valid := True, pending_on_writes_committed := Some 4\<rparr>"
      "\<lambda>c t. t\<lparr>age := of_nat c\<rparr>" 4 "\<lparr>observed = 8\<rparr>"]
  by (simp add: initial_def ZX_EVENT_SIGNALED_def ZX_OK_def VK_SUCCESS_def Reset_eq reset_state_def
        reset_trace_def semaphore_trace_def semaphore_ok_def emit_def)

subsection \<open>Size and validity\<close>

text \<open>
  Claim C5. Take any surface that the constructor has returned and on which any sequence
  of public calls and dispatcher wake-ups has run without a fatal outcome, with callbacks
  that do not write the private members \<^verbatim>\<open>valid_\<close> and \<^verbatim>\<open>sk_surface_\<close>. If the surface is
  valid, \<open>GetSize\<close> returns the size that was passed to the constructor; if it is invalid,
  \<open>GetSize\<close> returns 0 by 0. The second half holds for every invalid surface whatsoever,
  whatever its Skia surface is. The two queries return no surface: as calls they leave the
  surface as it was.
\<close>

theorem GetSize_of_surface:
  fixes s :: "'cb VulkanSurface"
  assumes frame: "callbacks_keep_surface run"
    and ctor: "VulkanSurface_ctor run e k session context sz bid = Inr s0"
    and ops: "calls run k cs s0 = Inr s"
  shows "GetSize s = Inr (if valid s then sz else Make 0 0)
    \<and> (\<forall>t :: 'cb VulkanSurface. \<not> valid t \<longrightarrow> GetSize t = Inr (Make 0 0))
    \<and> call run k CallGetSize s = Inr s
    \<and> call run k CallIsValid s = Inr s"
proof -
  have "valid s \<longrightarrow> sk_surface s = Some (surface_of sz)"
    using calls_keep_surface [OF frame ops] ctor_Inr(7) [OF ctor] by blast
  then have "GetSize s = Inr (if valid s then sz else Make 0 0)"
    by (simp add: GetSize_def surface_of_def Make_fields)
  then show ?thesis by (simp add: GetSize_def)
qed

theorem GetSize_of_surface_witness:
  "callbacks_keep_surface (\<lambda>c t. t :: nat VulkanSurface)
   \<and> VulkanSurface_ctor (\<lambda>c t. t) example_env 2 True True (Make 4 3) 5 = Inr example_surface
   \<and> calls (\<lambda>c t. t) 2 [CallSignalWritesFinished (Some 7), CallFlush example_flush] example_surface
       = Inr (example_surface\<lparr>pending_on_writes_committed := Some 7, age := 0,
                trace := trace example_surface @ flush_trace example_flush\<rparr>)
   \<and> GetSize (example_surface\<lparr>pending_on_writes_committed := Some 7, age := 0,
                trace := trace example_surface @ flush_trace example_flush\<rparr>) = Inr (Make 4 3)"
proof -
  have h1: "callbacks_keep_surface (\<lambda>c t. t :: nat VulkanSurface)"
    by (simp add: callbacks_keep_surface_def)
  have v: "valid example_surface" "pending_on_writes_committed example_surface = None"
    by (simp_all add: example_surface_def)
  have h3: "calls (\<lambda>c t. t) 2 [CallSignalWritesFinished (Some 7), CallFlush example_flush]
        example_surface
       = Inr (example_surface\<lparr>pending_on_writes_committed := Some 7, age := 0,
                trace := trace example_surface @ flush_trace example_flush\<rparr>)"
    using v
    by (simp add: SignalWritesFinished_def FML_DCHECK_def Check_def Flush_eq flush_ok_def
          example_flush_def ZX_OK_def)
  show ?thesis
    using h1 ctor_example h3 v GetSize_of_surface [OF h1 ctor_example h3] by simp
qed

subsection \<open>Memory type\<close>

text \<open>
  Claim C7. Every memory type index that \<open>AllocateDeviceMemory\<close> passes to
  \<^verbatim>\<open>vkAllocateMemory\<close>, or stores in \<^verbatim>\<open>vk_memory_info_\<close>, is a bit set both in the memory
  type bits that the driver reports for the image and in those that the buffer collection
  reports. When the two have no bit in common, \<open>AllocateDeviceMemory\<close> never returns true,
  and if the steps before the choice of the memory type all succeed it stops at the
  assertion. When they have a bit in common and those steps succeed, it does call
  \<^verbatim>\<open>vkAllocateMemory\<close>, with the lowest common bit as memory type index.
\<close>

theorem memory_type_in_intersection:
  fixes s :: "'cb VulkanSurface"
  shows "(\<forall>ok s' info.
            AllocateDeviceMemory e context sz bid s = Inr (ok, s')
            \<longrightarrow> VkAllocateMemory info \<in> set (trace s') \<or> vk_memory_info s' = Some info
            \<longrightarrow> VkAllocateMemory info \<in> set (trace s) \<or> vk_memory_info s = Some info
                \<or> bit (memoryTypeBits (image_memory_requirements e)) (unat (memoryTypeIndex info))
                  \<and> bit (collection_memoryTypeBits e) (unat (memoryTypeIndex info)))
    \<and> (memoryTypeBits (image_memory_requirements e) AND collection_memoryTypeBits e = 0
        \<longrightarrow> (\<forall>s'. AllocateDeviceMemory e context sz bid s \<noteq> Inr (True, s'))
          \<and> (registers e sz \<and> create_buffer_collection_result e = VK_SUCCESS
               \<and> set_constraints_result e = VK_SUCCESS \<and> create_image_result e = VK_SUCCESS
               \<and> get_collection_properties_result e = VK_SUCCESS
              \<longrightarrow> AllocateDeviceMemory e context sz bid s = Inl DCheckFailed))
    \<and> (memoryTypeBits (image_memory_requirements e) AND collection_memoryTypeBits e \<noteq> 0
        \<and> registers e sz \<and> create_buffer_collection_result e = VK_SUCCESS
        \<and> set_constraints_result e = VK_SUCCESS \<and> create_image_result e = VK_SUCCESS
        \<and> get_collection_properties_result e = VK_SUCCESS
        \<longrightarrow> (\<exists>ok s' n. AllocateDeviceMemory e context sz bid s = Inr (ok, s')
              \<and> builtin_ctz (memoryTypeBits (image_memory_requirements e)
                              AND collection_memoryTypeBits e) = Some n
              \<and> VkAllocateMemory \<lparr>allocationSize = req_size (image_memory_requirements e),
                                   memoryTypeIndex = of_nat n\<rparr> \<in> set (trace s')))"
proof (intro conjI allI impI)
  fix ok s' info
  assume a: "AllocateDeviceMemory e context sz bid s = Inr (ok, s')"
    and m: "VkAllocateMemory info \<in> set (trace s') \<or> vk_memory_info s' = Some info"
  let ?bits = "memoryTypeBits (image_memory_requirements e) AND collection_memoryTypeBits e"
  have idx: "bit (memoryTypeBits (image_memory_requirements e)) (unat (of_nat n :: u32))
      \<and> bit (collection_memoryTypeBits e) (unat (of_nat n :: u32))"
    if "builtin_ctz ?bits = Some n" for n
    using builtin_ctz_Some [OF that] by (simp add: unat_index bit_and_iff)
  from a m idx
  show "VkAllocateMemory info \<in> set (trace s) \<or> vk_memory_info s = Some info
                \<or> bit (memoryTypeBits (image_memory_requirements e)) (unat (memoryTypeIndex info))
                  \<and> bit (collection_memoryTypeBits e) (unat (memoryTypeIndex info))"
    by (auto simp: AllocateDeviceMemory_def CreateVulkanImage_def SetupSkiaSurface_def
          FML_DCHECK_def Let_def
        split: if_splits option.splits made_surface.splits)
next
  fix s'
  assume "memoryTypeBits (image_memory_requirements e) AND collection_memoryTypeBits e = 0"
  then show "AllocateDeviceMemory e context sz bid s \<noteq> Inr (True, s')"
    by (auto simp: AllocateDeviceMemory_def CreateVulkanImage_def SetupSkiaSurface_def
          FML_DCHECK_def Let_def
        split: if_splits option.splits made_surface.splits)
next
  assume "memoryTypeBits (image_memory_requirements e) AND collection_memoryTypeBits e = 0"
    and "registers e sz \<and> create_buffer_collection_result e = VK_SUCCESS
               \<and> set_constraints_result e = VK_SUCCESS \<and> create_image_result e = VK_SUCCESS
               \<and> get_collection_properties_result e = VK_SUCCESS"
  then show "AllocateDeviceMemory e context sz bid s = Inl DCheckFailed"
    by (simp add: AllocateDeviceMemory_def CreateVulkanImage_def registers_def
          FML_DCHECK_def Let_def)
next
  assume "memoryTypeBits (image_memory_requirements e) AND collection_memoryTypeBits e \<noteq> 0
        \<and> registers e sz \<and> create_buffer_collection_result e = VK_SUCCESS
        \<and> set_constraints_result e = VK_SUCCESS \<and> create_image_result e = VK_SUCCESS
        \<and> get_collection_properties_result e = VK_SUCCESS"
  then show "\<exists>ok s' n. AllocateDeviceMemory e context sz bid s = Inr (ok, s')
              \<and> builtin_ctz (memoryTypeBits (image_memory_requirements e)
                              AND collection_memoryTypeBits e) = Some n
              \<and> VkAllocateMemory \<lparr>allocationSize = req_size (image_memory_requirements e),
                                   memoryTypeIndex = of_nat n\<rparr> \<in> set (trace s')"
    using AllocateDeviceMemory_chooses [of e sz "context" bid s] by blast
qed

theorem memory_type_in_intersection_witness:
  "AllocateDeviceMemory (example_alloc\<lparr>collection_memoryTypeBits := 8\<rparr>) True (Make 4 3) 5
      (initial 2 :: nat VulkanSurface) = Inl DCheckFailed"
  using memory_type_in_intersection
    [of "example_alloc\<lparr>collection_memoryTypeBits := 8\<rparr>" True "Make 4 3" 5
        "initial 2 :: nat VulkanSurface"]
  by (simp add: example_alloc_def registers_def isEmpty_def Make_def ZX_OK_def VK_SUCCESS_def)

subsection \<open>Destruction\<close>

text \<open>
  Claim C8, as stated, fails for the id 0. The constructor, given buffer id 0 in an
  environment where every call succeeds, registers buffer collection 0 with the session
  and returns a valid surface; the destructor of that surface releases the image and
  does not deregister the buffer collection.
\<close>

theorem dtor_buffer_id_zero_counterexample:
  "VulkanSurface_ctor example_run example_env 2 True True (Make 4 3) 0
     = Inr example_surface_zero_id
   \<and> RegisterBufferCollection 0 \<in> set (trace example_surface_zero_id)
   \<and> DeregisterBufferCollection 0 \<notin> set (trace (VulkanSurface_dtor example_surface_zero_id))
   \<and> session_calls (trace (VulkanSurface_dtor example_surface_zero_id)) =
       [RegisterBufferCollection 0, AllocResourceId, Enqueue (CreateImage2Cmd 1 4 3 0 0),
        Enqueue (ReleaseResourceCmd 1)]"
  using ctor_example_zero_id
  by (simp add: VulkanSurface_dtor_def Let_def example_surface_zero_id_def example_surface_def)

text \<open>
  Claim C8, amended. On whatever surface the constructor returns, successful or not, the
  destructor sends the session a release command exactly when the constructor allocated a
  resource id and that id is not 0, and it deregisters the buffer collection exactly when
  the constructor registered it and its buffer id is not 0. So nothing is released that
  was never acquired. For every surface \<open>t\<close> the two tests are on the stored image id and
  on the stored buffer id, each on its own.
\<close>

theorem dtor_releases_what_was_acquired:
  fixes s :: "'cb VulkanSurface"
  assumes ctor: "VulkanSurface_ctor run e k session context sz bid = Inr s"
  shows "session_calls (trace (VulkanSurface_dtor s)) =
           session_calls (trace s)
           @ (if AllocResourceId \<in> set (trace s) \<and> resource_id e \<noteq> 0
              then [Enqueue (ReleaseResourceCmd (resource_id e))] else [])
           @ (if RegisterBufferCollection bid \<in> set (trace s) \<and> bid \<noteq> 0
              then [DeregisterBufferCollection bid] else [])
    \<and> (\<forall>t :: 'cb VulkanSurface. session_calls (trace (VulkanSurface_dtor t)) =
           session_calls (trace t)
           @ (if image_id t \<noteq> 0 then [Enqueue (ReleaseResourceCmd (image_id t))] else [])
           @ (if buffer_id t \<noteq> 0 then [DeregisterBufferCollection (buffer_id t)] else []))"
proof -
  note c = ctor_Inr [OF ctor]
  have mem: "x \<in> set (trace s) \<longleftrightarrow> x \<in> set (session_calls (trace s))"
    if "is_session_call x" for x
    using that by (simp add: session_calls_def)
  have a: "AllocResourceId \<in> set (trace s) \<longleftrightarrow> valid s"
    by (simp add: mem c(8))
  have r: "RegisterBufferCollection bid \<in> set (trace s) \<longleftrightarrow> registers (alloc e) sz"
    by (simp add: mem c(8))
  have d: "session_calls (trace (VulkanSurface_dtor t)) =
           session_calls (trace t)
           @ (if image_id t \<noteq> 0 then [Enqueue (ReleaseResourceCmd (image_id t))] else [])
           @ (if buffer_id t \<noteq> 0 then [DeregisterBufferCollection (buffer_id t)] else [])"
    for t :: "'cb VulkanSurface"
    by (simp add: VulkanSurface_dtor_def Let_def)
  have i: "image_id s \<noteq> 0 \<longleftrightarrow> valid s \<and> resource_id e \<noteq> 0"
    and b: "buffer_id s \<noteq> 0 \<longleftrightarrow> registers (alloc e) sz \<and> bid \<noteq> 0"
    by (simp_all add: c(5) c(6))
  have first: "session_calls (trace (VulkanSurface_dtor s)) =
           session_calls (trace s)
           @ (if AllocResourceId \<in> set (trace s) \<and> resource_id e \<noteq> 0
              then [Enqueue (ReleaseResourceCmd (resource_id e))] else [])
           @ (if RegisterBufferCollection bid \<in> set (trace s) \<and> bid \<noteq> 0
              then [DeregisterBufferCollection bid] else [])"
    unfolding d [of s] a r using i b by (simp add: c(5) c(6))
  from first d show ?thesis by blast
qed

theorem dtor_releases_what_was_acquired_witness:
  "VulkanSurface_ctor (\<lambda>c t. t) example_env 2 True True (Make 4 3) 5 = Inr example_surface
   \<and> session_calls (trace (VulkanSurface_dtor example_surface)) =
       [RegisterBufferCollection 5, AllocResourceId, Enqueue (CreateImage2Cmd 1 4 3 5 0),
        Enqueue (ReleaseResourceCmd 1), DeregisterBufferCollection 5]"
proof -
  have t: "session_calls (trace example_surface) =
      [RegisterBufferCollection 5, AllocResourceId, Enqueue (CreateImage2Cmd 1 4 3 5 0)]"
    and m: "AllocResourceId \<in> set (trace example_surface)"
      "RegisterBufferCollection 5 \<in> set (trace example_surface)"
    by (simp_all add: example_surface_def)
  show ?thesis
    using ctor_example dtor_releases_what_was_acquired [OF ctor_example, THEN conjunct1] t m
    by (simp add: example_env_def)
qed

subsection \<open>A full cycle\<close>

text \<open>
  Claim C9. Let the constructor return a valid surface, let a flush on it return true, and
  let the release event then be signalled, with both events re-armed by \<open>Reset\<close>. The
  surface is valid again, its size is the size passed to the constructor, as it was before
  the cycle, and its callback slot is empty: it accepts a callback, and a flush with
  the same results returns true again.
\<close>

theorem round_trip:
  fixes s0 :: "'cb VulkanSurface"
  assumes ctor: "VulkanSurface_ctor run e k session context sz bid = Inr s0"
    and v0: "valid s0"
    and flush: "FlushSessionAcquireAndReleaseEvents fe s0 = (True, s1)"
    and acq: "acquire_signal_status re = ZX_OK"
    and rel: "release_signal_status re = ZX_OK"
    and ready: "OnHandleReady run' re ZX_OK signal s1 = Inr s2"
  shows "valid s2 \<and> GetSize s0 = Inr sz \<and> GetSize s2 = Inr sz
    \<and> pending_on_writes_committed s2 = None
    \<and> SignalWritesFinished run' s2 (Some c) = Inr (s2\<lparr>pending_on_writes_committed := Some c\<rparr>)
    \<and> fst (FlushSessionAcquireAndReleaseEvents fe s2)"
proof -
  note c = ctor_Inr [OF ctor]
  have s1: "s1 = s0\<lparr>age := 0, trace := trace s0 @ flush_trace fe\<rparr>" and fe: "flush_ok fe"
    using flush unfolding Flush_eq by auto
  have p1: "pending_on_writes_committed s1 = None" using c(1) by (simp add: s1)
  have s2: "s2 = reset_state re s1"
    using ready p1 by (simp add: OnHandleReady_def FML_DCHECK_def Reset_eq split: if_splits)
  have k0: "sk_surface s0 = Some (surface_of sz)" using c(7) v0 by simp
  have v2: "valid s2" using v0 acq rel by (simp add: s2 s1)
  have k2: "sk_surface s2 = Some (surface_of sz)" using k0 by (simp add: s2 s1)
  have g0: "GetSize s0 = Inr sz" using v0 k0 by (simp add: GetSize_def surface_of_def Make_fields)
  have g2: "GetSize s2 = Inr sz" using v2 k2 by (simp add: GetSize_def surface_of_def Make_fields)
  have p2: "pending_on_writes_committed s2 = None" by (simp add: s2)
  have sw: "SignalWritesFinished run' s2 (Some c) = Inr (s2\<lparr>pending_on_writes_committed := Some c\<rparr>)"
    using v2 p2 by (simp add: SignalWritesFinished_def FML_DCHECK_def Check_def)
  from v2 g0 g2 p2 sw fe show ?thesis by (simp add: Flush_eq)
qed

theorem round_trip_witness:
  "VulkanSurface_ctor (\<lambda>c t. t) example_env 2 True True (Make 4 3) 5 = Inr example_surface
   \<and> valid example_surface
   \<and> FlushSessionAcquireAndReleaseEvents example_flush example_surface
       = (True, example_surface\<lparr>age := 0, trace := trace example_surface @ flush_trace example_flush\<rparr>)
   \<and> OnHandleReady (\<lambda>c t. t) example_reset ZX_OK \<lparr>observed = 8\<rparr>
        (example_surface\<lparr>age := 0, trace := trace example_surface @ flush_trace example_flush\<rparr>)
       = Inr (reset_state example_reset
               (example_surface\<lparr>age := 0, trace := trace example_surface @ flush_trace example_flush\<rparr>))
   \<and> valid (reset_state example_reset
               (example_surface\<lparr>age := 0, trace := trace example_surface @ flush_trace example_flush\<rparr>))
   \<and> GetSize (reset_state example_reset
               (example_surface\<lparr>age := 0, trace := trace example_surface @ flush_trace example_flush\<rparr>))
       = Inr (Make 4 3)"
proof -
  let ?s1 = "example_surface\<lparr>age := 0, trace := trace example_surface @ flush_trace example_flush\<rparr>"
  have v: "valid example_surface" and p: "pending_on_writes_committed example_surface = None"
    by (simp_all add: example_surface_def)
  have f: "FlushSessionAcquireAndReleaseEvents example_flush example_surface = (True, ?s1)"
    by (simp add: Flush_eq flush_ok_def example_flush_def ZX_OK_def)
  have a: "acquire_signal_status example_reset = ZX_OK"
    and r: "release_signal_status example_reset = ZX_OK"
    by (simp_all add: example_reset_def ZX_OK_def)
  have h: "OnHandleReady (\<lambda>c t. t) example_reset ZX_OK \<lparr>observed = 8\<rparr> ?s1
       = Inr (reset_state example_reset ?s1)"
    using p by (simp add: OnHandleReady_def FML_DCHECK_def ZX_EVENT_SIGNALED_def Reset_eq)
  show ?thesis
    using ctor_example v f h round_trip [OF ctor_example v f a r h] by simp
qed

end
